theory Spec2Isabelle
  imports Main
begin

section \<open>StyleMorph: data model (types.ts)\<close>

text \<open>
  JavaScript strings are modelled as HOL strings; a \<^typ>\<open>char\<close> stands for a code unit
  below 256. Record fields carry a short prefix because several interfaces of the
  source share the field names \<open>id\<close>, \<open>name\<close>, \<open>prompt\<close> and \<open>content\<close>.
\<close>

record UploadedFile =
  uf_id :: string
  uf_name :: string
  uf_content :: string

datatype FileType = Html | Css

record ProcessedFile =
  pf_fileName :: string
  pf_content :: string
  pf_type :: FileType

datatype ProcessingStatus =
  IDLE | ANALYZING | GENERATING_CSS | REWRITING_HTML | COMPLETED | ERROR

record HistoryItem =
  hi_id :: string
  hi_timestamp :: int
  hi_prompt :: string
  hi_results :: "ProcessedFile list"

datatype Provider = Google | Ollama

record AIModel =
  m_id :: string
  m_name :: string
  m_provider :: Provider

text \<open>\<open>isCustom\<close> is an optional field: \<open>None\<close> is the absent (falsy) value.\<close>

record StyleTemplate =
  t_id :: string
  t_name :: string
  t_prompt :: string
  t_likes :: int
  t_isLiked :: bool
  t_isCustom :: "bool option"

section \<open>String helpers of the JavaScript runtime\<close>

text \<open>White space as \<open>String.prototype.trim\<close> and the regular expression class
  \<open>\s\<close> see it, restricted to code units below 256: tab, line feed, vertical tab,
  form feed, carriage return, space and the no-break space.\<close>

definition isWhiteSpace :: "char \<Rightarrow> bool" where
  "isWhiteSpace c = (of_char c \<in> {9, 10, 11, 12, 13, 32, 160 :: nat})"

definition trimStart :: "string \<Rightarrow> string" where
  "trimStart s = dropWhile isWhiteSpace s"

definition trimEnd :: "string \<Rightarrow> string" where
  "trimEnd s = rev (dropWhile isWhiteSpace (rev s))"

definition trim :: "string \<Rightarrow> string" where
  "trim s = trimEnd (trimStart s)"

definition digit_char :: "nat \<Rightarrow> char" where
  "digit_char d = ''0123456789'' ! d"

text \<open>Decimal rendering of a non-negative integer inside a template literal.\<close>

fun show_nat :: "nat \<Rightarrow> string" where
  "show_nat n = (if n < 10 then [digit_char n]
                 else show_nat (n div 10) @ [digit_char (n mod 10)])"

text \<open>\<open>Array.prototype.join\<close> on an array of strings.\<close>

fun join :: "string \<Rightarrow> string list \<Rightarrow> string" where
  "join sep [] = []"
| "join sep [x] = x"
| "join sep (x # y # ys) = x @ sep @ join sep (y # ys)"

section \<open>The structural validator (services/geminiService.ts)\<close>

text \<open>
  One iteration of the scanning loop of \<open>validateCss\<close>: the pair is
  \<open>(openBraces, errors)\<close>.
\<close>

definition scan_step :: "int \<times> string list \<Rightarrow> char \<Rightarrow> int \<times> string list" where
  "scan_step st c =
     (let openBraces = fst st; errors = snd st;
          openBraces = (if c = CHR ''{'' then openBraces + 1 else openBraces);
          openBraces = (if c = CHR ''}'' then openBraces - 1 else openBraces)
      in if openBraces < 0
         then (0, errors @ [''Found extra closing brace '}'.''])
         else (openBraces, errors))"

definition validateCss :: "string \<Rightarrow> string list" where
  "validateCss css =
     (let st = foldl scan_step (0, []) css;
          openBraces = fst st; errors = snd st;
          errors = (if openBraces > 0
                    then errors @ [''Missing '' @ show_nat (nat openBraces) @ '' closing brace(s) '}'.'']
                    else errors);
          errors = (if css = [] \<or> length (trim css) = 0
                    then errors @ [''Generated CSS is empty.'']
                    else errors)
      in errors)"

section \<open>The generation gateway (services/geminiService.ts)\<close>

text \<open>Lower-casing of the ASCII letters, for the \<open>i\<close> flag of the regular expression.\<close>

definition toLowerAscii :: "char \<Rightarrow> char" where
  "toLowerAscii c =
     (case map_of (zip ''ABCDEFGHIJKLMNOPQRSTUVWXYZ'' ''abcdefghijklmnopqrstuvwxyz'') c of
        Some l \<Rightarrow> l
      | None \<Rightarrow> c)"

text \<open>The optional group \<open>(?:html|css)?\<close>: greedy, \<open>html\<close> tried before \<open>css\<close>.\<close>

definition stripLanguageTag :: "string \<Rightarrow> string" where
  "stripLanguageTag s =
     (if map toLowerAscii (take 4 s) = ''html'' then drop 4 s
      else if map toLowerAscii (take 3 s) = ''css'' then drop 3 s
      else s)"

text \<open>
  The match of \<open>codeBlockRegex\<close>, anchored at both ends of the text: three backticks, the
  optional language tag, white space, a lazy group, white space, three backticks. The
  result is capture group 1. The language tag and the white space after it hold no
  backtick, so the greedy choices never have to be taken back; the lazy group stops at
  the first point from which only white space and the closing fence remain, which
  leaves the body with its trailing white space removed.
\<close>

definition codeBlockMatch :: "string \<Rightarrow> string option" where
  "codeBlockMatch s =
     (if 6 \<le> length s \<and> take 3 s = ''```'' \<and> drop (length s - 3) s = ''```''
      then (let r = trimStart (stripLanguageTag (drop 3 s))
            in Some (trimEnd (take (length r - 3) r)))
      else None)"

definition cleanCodeResponse :: "string \<Rightarrow> string" where
  "cleanCodeResponse text =
     (let cleaned = trim text
      in case codeBlockMatch cleaned of Some g \<Rightarrow> g | None \<Rightarrow> cleaned)"

text \<open>
  A thrown JavaScript exception, with its \<open>message\<close>. A \<open>DOMException\<close> is what
  \<open>localStorage.setItem\<close> throws when the quota is exceeded or storage is disabled.
\<close>

datatype js_error = Error string | TypeError string | DOMException string

fun message :: "js_error \<Rightarrow> string" where
  "message (Error m) = m"
| "message (TypeError m) = m"
| "message (DOMException m) = m"

text \<open>
  The model service behind \<open>callOllama\<close> and \<open>ai.models.generateContent\<close> is outside the
  program. A transport gives, for the n-th request of a run, the selected model and what
  the request is built from, the response text, or \<open>None\<close> when anything inside the
  \<open>try\<close> block of the calling function throws.
\<close>

datatype request =
  CssRequest "UploadedFile list" string
| HtmlRequest UploadedFile string string

type_synonym transport = "nat \<Rightarrow> AIModel \<Rightarrow> request \<Rightarrow> string option"

definition generateGlobalCss ::
  "transport \<Rightarrow> UploadedFile list \<Rightarrow> string \<Rightarrow> AIModel \<Rightarrow> js_error + string" where
  "generateGlobalCss tr fs userPrompt model =
     (case tr 0 model (CssRequest fs userPrompt) of
        Some responseText \<Rightarrow> Inr (cleanCodeResponse responseText)
      | None \<Rightarrow> Inl (Error (''Failed to generate global CSS using '' @ m_name model @ ''.'')))"

definition rewriteHtmlFile ::
  "transport \<Rightarrow> nat \<Rightarrow> UploadedFile \<Rightarrow> string \<Rightarrow> string \<Rightarrow> AIModel \<Rightarrow> js_error + string" where
  "rewriteHtmlFile tr n file globalCss userPrompt model =
     (case tr n model (HtmlRequest file globalCss userPrompt) of
        Some responseText \<Rightarrow> Inr (cleanCodeResponse responseText)
      | None \<Rightarrow> Inl (Error (''Failed to rewrite HTML for '' @ uf_name file)))"

section \<open>The application state (App component)\<close>

record InputSnapshot =
  snap_files :: "UploadedFile list"
  snap_prompt :: string

text \<open>
  The state variables and refs of the component that the modelled handlers read or
  write, and the two \<open>localStorage\<close> entries \<open>stylemorph_history\<close> and
  \<open>stylemorph_templates\<close> (\<open>None\<close>: the key is absent). A stored value is kept as the
  list that was serialised. \<open>debounceTimer\<close> is the pending timer of the debounced prompt
  commit: what its callback has captured, the \<open>historyIndex\<close> and the \<open>files\<close> of the render
  that armed it and the prompt typed; \<open>None\<close> when no timer is pending.
\<close>

record app_state =
  selectedModel :: AIModel
  files :: "UploadedFile list"
  prompt :: string
  templates :: "StyleTemplate list"
  inputHistory :: "InputSnapshot list"
  historyIndex :: nat
  isUndoing :: bool
  debounceTimer :: "(nat \<times> UploadedFile list \<times> string) option"
  status :: ProcessingStatus
  statusMessage :: string
  results :: "ProcessedFile list"
  error :: "string option"
  history :: "HistoryItem list"
  ls_history :: "HistoryItem list option"
  ls_templates :: "StyleTemplate list option"

definition DEFAULT_TEMPLATES :: "StyleTemplate list" where
  "DEFAULT_TEMPLATES =
     [\<lparr>t_id = ''t1'', t_name = ''Dark Mode Minimal'',
       t_prompt = ''Modern dark mode with sleek typography, high contrast, slate background, and subtle blue accents.'',
       t_likes = 124, t_isLiked = False, t_isCustom = None\<rparr>,
      \<lparr>t_id = ''t2'', t_name = ''Corporate Clean'',
       t_prompt = ''Professional, trustworthy corporate style with navy blue header, white background, and clean sans-serif fonts.'',
       t_likes = 89, t_isLiked = False, t_isCustom = None\<rparr>,
      \<lparr>t_id = ''t3'', t_name = ''Neon Cyberpunk'',
       t_prompt = ''Futuristic cyberpunk aesthetic with neon pink and cyan text, black background, and glitch effects on hover.'',
       t_likes = 256, t_isLiked = False, t_isCustom = None\<rparr>,
      \<lparr>t_id = ''t4'', t_name = ''Playful & Brutalist'',
       t_prompt = ''Bold neo-brutalism with thick black borders, vivid pastel colors, large typography, and offset shadows.'',
       t_likes = 54, t_isLiked = False, t_isCustom = None\<rparr>]"

text \<open>The state of the first render, before anything is loaded from \<open>localStorage\<close>.\<close>

definition initial_state :: app_state where
  "initial_state =
     \<lparr>selectedModel = \<lparr>m_id = ''gemini-2.5-flash'', m_name = ''Gemini 2.5 Flash'', m_provider = Google\<rparr>,
      files = [], prompt = [], templates = DEFAULT_TEMPLATES,
      inputHistory = [\<lparr>snap_files = [], snap_prompt = []\<rparr>], historyIndex = 0,
      isUndoing = False, debounceTimer = None, status = IDLE, statusMessage = [], results = [],
      error = None, history = [], ls_history = None, ls_templates = None\<rparr>"

section \<open>Undo and redo of the input\<close>

text \<open>
  What a handler leaves behind: the state after it returned, or the exception that
  escaped it together with the state at that point.
\<close>

datatype handler_result = Returned app_state | Threw js_error app_state

fun state_of :: "handler_result \<Rightarrow> app_state" where
  "state_of (Returned s) = s"
| "state_of (Threw e s) = s"

text \<open>
  \<open>handleUndo\<close>. Reading \<open>inputHistory[prevIndex]\<close> beyond the end gives \<open>undefined\<close>,
  and the property access on it throws after the ref was set. The timer that clears
  the ref 50 ms later is \<open>isUndoingTimeout\<close>.
\<close>

definition handleUndo :: "app_state \<Rightarrow> handler_result" where
  "handleUndo s =
     (if historyIndex s > 0 then
        (let s1 = s\<lparr>isUndoing := True\<rparr>;
             prevIndex = historyIndex s - 1
         in if prevIndex < length (inputHistory s) then
              (let prevState = inputHistory s ! prevIndex
               in Returned (s1\<lparr>files := snap_files prevState,
                                prompt := snap_prompt prevState,
                                historyIndex := prevIndex\<rparr>))
            else Threw (TypeError ''Cannot read properties of undefined (reading 'files')'') s1)
      else Returned s)"

definition handleRedo :: "app_state \<Rightarrow> app_state" where
  "handleRedo s =
     (if historyIndex s < length (inputHistory s) - 1 then
        (let s1 = s\<lparr>isUndoing := True\<rparr>;
             nextIndex = historyIndex s + 1;
             nextState = inputHistory s ! nextIndex
         in s1\<lparr>files := snap_files nextState,
                prompt := snap_prompt nextState,
                historyIndex := nextIndex\<rparr>)
      else s)"

definition isUndoingTimeout :: "app_state \<Rightarrow> app_state" where
  "isUndoingTimeout s = s\<lparr>isUndoing := False\<rparr>"

text \<open>
  \<open>addToHistoryStack\<close>. The callback is memoised on \<open>historyIndex\<close>: the slice uses the
  index \<open>idx\<close> of the render that created the callback, the increment uses the state
  at the time of the update. A handler of the current render passes
  \<open>historyIndex s\<close>; the timer of the debounced prompt commit keeps the callback of the
  render that armed it and runs it with that render's index.
\<close>

definition addToHistoryStack ::
  "nat \<Rightarrow> UploadedFile list \<Rightarrow> string \<Rightarrow> app_state \<Rightarrow> app_state" where
  "addToHistoryStack idx newFiles newPrompt s =
     (let newHistory = take (idx + 1) (inputHistory s);
          newHistory = newHistory @ [\<lparr>snap_files = newFiles, snap_prompt = newPrompt\<rparr>]
      in s\<lparr>inputHistory := newHistory, historyIndex := historyIndex s + 1\<rparr>)"

definition handleFilesSelected :: "UploadedFile list \<Rightarrow> app_state \<Rightarrow> app_state" where
  "handleFilesSelected newFiles s =
     (let updatedFiles = files s @ newFiles;
          s1 = s\<lparr>files := updatedFiles, error := None\<rparr>
      in if \<not> isUndoing s
         then addToHistoryStack (historyIndex s) updatedFiles (prompt s) s1
         else s1)"

definition handleRemoveFile :: "string \<Rightarrow> app_state \<Rightarrow> app_state" where
  "handleRemoveFile fid s =
     (let updatedFiles = filter (\<lambda>f. uf_id f \<noteq> fid) (files s);
          s1 = s\<lparr>files := updatedFiles\<rparr>
      in if \<not> isUndoing s
         then addToHistoryStack (historyIndex s) updatedFiles (prompt s) s1
         else s1)"

text \<open>
  \<open>handlePromptChange\<close>. Outside a replay the pending timer is cleared and a new one is
  armed; its callback calls the \<open>addToHistoryStack\<close> of this render with the \<open>files\<close> of
  this render.
\<close>

definition handlePromptChange :: "string \<Rightarrow> app_state \<Rightarrow> app_state" where
  "handlePromptChange newPrompt s =
     (let s1 = s\<lparr>prompt := newPrompt\<rparr>
      in if \<not> isUndoing s
         then s1\<lparr>debounceTimer := Some (historyIndex s, files s, newPrompt)\<rparr>
         else s1)"

text \<open>The pending timer fires, 1000 ms after it was armed: the captured callback runs
  in whatever state the component is in by then.\<close>

definition debounceTimeout :: "app_state \<Rightarrow> app_state" where
  "debounceTimeout s =
     (case debounceTimer s of
        None \<Rightarrow> s
      | Some (idx, fs, p) \<Rightarrow> addToHistoryStack idx fs p (s\<lparr>debounceTimer := None\<rparr>))"

text \<open>
  A history of edits, replayed from a starting state. \<open>Commit\<close> is a commit made by a
  handler of the current render; the debounced commit of a prompt change is made when
  its timer fires. A throwing undo leaves the state it reached.
\<close>

datatype history_op =
  Commit "UploadedFile list" string
| Undo
| Redo
| UndoingTimeout
| PromptChange string
| DebounceTimeout

fun apply_op :: "app_state \<Rightarrow> history_op \<Rightarrow> app_state" where
  "apply_op s (Commit fs p) = addToHistoryStack (historyIndex s) fs p s"
| "apply_op s Undo = state_of (handleUndo s)"
| "apply_op s Redo = handleRedo s"
| "apply_op s UndoingTimeout = isUndoingTimeout s"
| "apply_op s (PromptChange p) = handlePromptChange p s"
| "apply_op s DebounceTimeout = debounceTimeout s"

definition run_ops :: "history_op list \<Rightarrow> app_state \<Rightarrow> app_state" where
  "run_ops ops s = foldl apply_op s ops"

section \<open>The template catalog\<close>

text \<open>
  \<open>localStorage.setItem\<close> either returns or throws; which of the two is not the program's
  to decide. A handler that writes takes the outcome of its write as \<open>w\<close>: \<open>None\<close> when
  the write returns, the exception when it throws. The state was set before the write,
  so it is set either way.
\<close>

definition updateTemplates :: "js_error option \<Rightarrow> StyleTemplate list \<Rightarrow> app_state \<Rightarrow> handler_result" where
  "updateTemplates w newTemplates s =
     (let s1 = s\<lparr>templates := newTemplates\<rparr>
      in case w of
           None \<Rightarrow> Returned (s1\<lparr>ls_templates := Some newTemplates\<rparr>)
         | Some err \<Rightarrow> Threw err s1)"

definition handleDeleteTemplate :: "js_error option \<Rightarrow> string \<Rightarrow> app_state \<Rightarrow> handler_result" where
  "handleDeleteTemplate w tid s =
     (let newTemplates = filter (\<lambda>t. t_id t \<noteq> tid) (templates s)
      in updateTemplates w newTemplates s)"

definition handleRenameTemplate ::
  "js_error option \<Rightarrow> string \<Rightarrow> string \<Rightarrow> app_state \<Rightarrow> handler_result" where
  "handleRenameTemplate w tid newName s =
     (let newTemplates = map (\<lambda>t. if t_id t = tid then t\<lparr>t_name := newName\<rparr> else t) (templates s)
      in updateTemplates w newTemplates s)"

subsection \<open>The gallery (components/TemplateGallery.tsx)\<close>

record gallery_state =
  editingId :: "string option"
  editName :: string

text \<open>
  The edit and delete buttons of a template card are rendered under the condition
  \<open>template.isCustom && editingId !== template.id\<close>.
\<close>

definition editControlsRendered :: "gallery_state \<Rightarrow> StyleTemplate \<Rightarrow> bool" where
  "editControlsRendered g t = (t_isCustom t = Some True \<and> editingId g \<noteq> Some (t_id t))"

definition startEditing :: "StyleTemplate \<Rightarrow> gallery_state \<Rightarrow> gallery_state" where
  "startEditing t g = g\<lparr>editingId := Some (t_id t), editName := t_name t\<rparr>"

text \<open>A click on the edit or the delete button of a card: it reaches the handler
  only when the button is rendered.\<close>

definition clickEdit :: "StyleTemplate \<Rightarrow> gallery_state \<Rightarrow> gallery_state" where
  "clickEdit t g = (if editControlsRendered g t then startEditing t g else g)"

definition clickDelete ::
  "js_error option \<Rightarrow> gallery_state \<Rightarrow> StyleTemplate \<Rightarrow> app_state \<Rightarrow> handler_result" where
  "clickDelete w g t s =
     (if editControlsRendered g t then handleDeleteTemplate w (t_id t) s else Returned s)"

text \<open>\<open>saveEdit\<close>: the rename goes out for the card being edited, when the new name
  is not blank; the edit is closed after the rename returned.\<close>

definition saveEdit ::
  "js_error option \<Rightarrow> gallery_state \<Rightarrow> app_state \<Rightarrow> gallery_state \<times> handler_result" where
  "saveEdit w g s =
     (case editingId g of
        Some eid \<Rightarrow>
          if eid \<noteq> [] \<and> trim (editName g) \<noteq> []
          then (case handleRenameTemplate w eid (editName g) s of
                  Returned s' \<Rightarrow> (g\<lparr>editingId := None\<rparr>, Returned s')
                | Threw err s' \<Rightarrow> (g, Threw err s'))
          else (g, Returned s)
      | None \<Rightarrow> (g, Returned s))"

section \<open>The run history\<close>

text \<open>What a save takes from the environment: \<open>crypto.randomUUID()\<close>, \<open>Date.now()\<close>, and
  the outcome of its \<open>localStorage.setItem\<close> (\<open>None\<close> when the write returns, the exception
  when it throws).\<close>

record env =
  randomUUID :: string
  now :: int
  setItem_throws :: "js_error option"

text \<open>\<open>saveToHistory\<close>: \<open>setHistory\<close> comes before the write, so the state holds the new
  history also when the write throws.\<close>

definition saveToHistory ::
  "env \<Rightarrow> ProcessedFile list \<Rightarrow> string \<Rightarrow> app_state \<Rightarrow> handler_result" where
  "saveToHistory e newResults userPrompt s =
     (let newItem = \<lparr>hi_id = randomUUID e, hi_timestamp = now e,
                      hi_prompt = userPrompt, hi_results = newResults\<rparr>;
          updatedHistory = take 20 (newItem # history s);
          s1 = s\<lparr>history := updatedHistory\<rparr>
      in case setItem_throws e of
           None \<Rightarrow> Returned (s1\<lparr>ls_history := Some updatedHistory\<rparr>)
         | Some err \<Rightarrow> Threw err s1)"

text \<open>Saving one run after the other, each in its own render, whether the write of the
  one before returned or threw.\<close>

fun saveAll :: "(env \<times> ProcessedFile list \<times> string) list \<Rightarrow> app_state \<Rightarrow> app_state" where
  "saveAll [] s = s"
| "saveAll ((e, rs, p) # runs) s = saveAll runs (state_of (saveToHistory e rs p s))"

section \<open>The pipeline\<close>

text \<open>
  What a run does besides leaving a final state: the status changes in order, and each
  gateway call with its outcome.
\<close>

datatype event =
  SetStatus ProcessingStatus
| GenerateCss "js_error + string"
| RewriteHtml UploadedFile "js_error + string"

text \<open>
  The loop over the files: \<open>i\<close> is the loop variable, \<open>acc\<close> is
  \<open>processedHtmlFiles\<close>. A rejected call leaves the loop with the error.
\<close>

function rewriteLoop ::
  "transport \<Rightarrow> UploadedFile list \<Rightarrow> string \<Rightarrow> string \<Rightarrow> AIModel \<Rightarrow> nat \<Rightarrow>
   ProcessedFile list \<Rightarrow> app_state \<Rightarrow> event list \<Rightarrow>
   (js_error + ProcessedFile list) \<times> app_state \<times> event list" where
  "rewriteLoop tr fs cssContent p model i acc s evs =
     (if i < length fs then
        (let file = fs ! i;
             s1 = s\<lparr>statusMessage := ''Rewriting '' @ uf_name file @ '' ('' @ show_nat (i + 1)
                                       @ ''/'' @ show_nat (length fs) @ '')...''\<rparr>;
             r = rewriteHtmlFile tr (i + 1) file cssContent p model
         in case r of
              Inl err \<Rightarrow> (Inl err, s1, evs @ [RewriteHtml file r])
            | Inr newHtml \<Rightarrow>
                rewriteLoop tr fs cssContent p model (i + 1)
                  (acc @ [\<lparr>pf_fileName = uf_name file, pf_content = newHtml, pf_type = Html\<rparr>])
                  s1 (evs @ [RewriteHtml file r]))
      else (Inr acc, s, evs))"
  by pat_completeness auto
termination
  by (relation "measure (\<lambda>(tr, fs, cssContent, p, model, i, acc, s, evs). length fs - i)") auto

declare rewriteLoop.simps [simp del]

text \<open>The \<open>catch\<close> block of \<open>processFiles\<close>. It catches what the gateway calls throw and
  what the write of \<open>saveToHistory\<close> throws.\<close>

definition catchError :: "js_error \<Rightarrow> app_state \<Rightarrow> app_state" where
  "catchError err s =
     s\<lparr>error := Some (if message err = [] then ''An error occurred during processing.''
                       else message err),
       status := ERROR\<rparr>"

text \<open>
  \<open>processFiles\<close>, from the state of the render in which it is called to the state when
  its promise settles, with the events of the run. No other handler runs in between, so
  the \<open>history\<close> that \<open>saveToHistory\<close> reads from the calling render is the current one.
\<close>

definition processFiles :: "transport \<Rightarrow> env \<Rightarrow> app_state \<Rightarrow> app_state \<times> event list" where
  "processFiles tr e s =
     (if length (files s) = 0 then (s, [])
      else if trim (prompt s) = [] then
        (s\<lparr>error := Some ''Please describe how you want to restyle the website.''\<rparr>, [])
      else
        (let s1 = s\<lparr>error := None, status := GENERATING_CSS,
                     statusMessage := ''Generating theme with '' @ m_name (selectedModel s) @ ''...''\<rparr>;
             evs = [SetStatus ANALYZING, SetStatus GENERATING_CSS];
             r = generateGlobalCss tr (files s) (prompt s) (selectedModel s)
         in case r of
              Inl err \<Rightarrow> (catchError err s1, evs @ [GenerateCss r, SetStatus ERROR])
            | Inr cssContent \<Rightarrow>
                (let validationErrors = validateCss cssContent;
                     s2 = (if length validationErrors > 0
                           then s1\<lparr>statusMessage := ''CSS Validation warning: '' @ validationErrors ! 0
                                                     @ '' Attempting to proceed...''\<rparr>
                           else s1);
                     cssFile = \<lparr>pf_fileName = ''style.css'', pf_content = cssContent, pf_type = Css\<rparr>;
                     s3 = s2\<lparr>status := REWRITING_HTML\<rparr>;
                     loop = rewriteLoop tr (files s) cssContent (prompt s) (selectedModel s) 0 []
                              s3 (evs @ [GenerateCss r, SetStatus REWRITING_HTML])
                 in case loop of
                      (Inl err, s4, evs4) \<Rightarrow> (catchError err s4, evs4 @ [SetStatus ERROR])
                    | (Inr processedHtmlFiles, s4, evs4) \<Rightarrow>
                        (let finalResults = cssFile # processedHtmlFiles;
                             s5 = s4\<lparr>results := finalResults, status := COMPLETED\<rparr>
                         in if length validationErrors > 0
                            then (s5\<lparr>error := Some (''Processing complete, but CSS validation found issues: ''
                                                     @ join '', '' validationErrors)\<rparr>,
                                  evs4 @ [SetStatus COMPLETED])
                            else (case saveToHistory e finalResults (prompt s) s5 of
                                    Returned s6 \<Rightarrow> (s6, evs4 @ [SetStatus COMPLETED])
                                  | Threw err s6 \<Rightarrow>
                                      (catchError err s6,
                                       evs4 @ [SetStatus COMPLETED, SetStatus ERROR]))))))"

section \<open>Sample inputs\<close>

definition sample_file1 :: UploadedFile where
  "sample_file1 = \<lparr>uf_id = ''f-1'', uf_name = ''index.html'', uf_content = ''<h1>Home</h1>''\<rparr>"

definition sample_file2 :: UploadedFile where
  "sample_file2 = \<lparr>uf_id = ''f-2'', uf_name = ''about.html'', uf_content = ''<h1>About</h1>''\<rparr>"

definition sample_env :: env where
  "sample_env = \<lparr>randomUUID = ''run-1'', now = 1700000000000, setItem_throws = None\<rparr>"


text \<open>Two files uploaded and a prompt typed.\<close>

definition sample_state :: app_state where
  "sample_state = initial_state\<lparr>files := [sample_file1, sample_file2], prompt := ''dark mode''\<rparr>"

text \<open>A service that answers every request, with a balanced stylesheet.\<close>

definition transport_clean :: transport where
  "transport_clean n m r =
     (case r of CssRequest fs p \<Rightarrow> Some ''a{b}''
              | HtmlRequest f c p \<Rightarrow> Some (''<main>'' @ uf_name f @ ''</main>''))"

text \<open>A service that answers every request, with a stylesheet that lacks a closing brace.\<close>

definition transport_unbalanced :: transport where
  "transport_unbalanced n m r =
     (case r of CssRequest fs p \<Rightarrow> Some ''a{b{c}''
              | HtmlRequest f c p \<Rightarrow> Some (''<main>'' @ uf_name f @ ''</main>''))"


text \<open>One file uploaded and a prompt of nothing but white space.\<close>

definition blank_prompt_state :: app_state where
  "blank_prompt_state = initial_state\<lparr>files := [sample_file1], prompt := ''   ''\<rparr>"

definition sample_item :: HistoryItem where
  "sample_item = \<lparr>hi_id = ''old'', hi_timestamp = 1600000000000, hi_prompt = ''retro'', hi_results = []\<rparr>"

text \<open>The sample state with a run history that is full.\<close>

definition full_history_state :: app_state where
  "full_history_state =
     sample_state\<lparr>history := replicate 20 sample_item, ls_history := Some (replicate 20 sample_item)\<rparr>"

text \<open>Twenty-five runs to save, numbered 0 to 24 in their ids; the write of run 10
  throws.\<close>

definition sample_runs :: "(env \<times> ProcessedFile list \<times> string) list" where
  "sample_runs =
     map (\<lambda>i. (\<lparr>randomUUID = show_nat i, now = int i,
                  setItem_throws = (if i = 10 then Some (DOMException ''The quota has been exceeded.'')
                                    else None)\<rparr>, [], ''p'')) [0..<25]"

text \<open>One file added, then undone: the cursor is at 0 of two snapshots and the replay
  flag is still set.\<close>

definition undone_state :: app_state where
  "undone_state = apply_op (handleFilesSelected [sample_file1] initial_state) Undo"

text \<open>One file added, an \<open>x\<close> typed into the prompt, then an undo before the second is
  over: the cursor is at 0 of two snapshots, and the timer armed at cursor 1 is
  pending.\<close>

definition pending_commit_after_undo :: app_state where
  "pending_commit_after_undo =
     isUndoingTimeout (state_of (handleUndo
       (handlePromptChange ''x'' (handleFilesSelected [sample_file1] initial_state))))"

text \<open>An \<open>x\<close> typed into the prompt, one file added before the second is over, then the
  timer fires.\<close>

definition commit_after_file_added :: app_state where
  "commit_after_file_added =
     debounceTimeout (handleFilesSelected [sample_file1] (handlePromptChange ''x'' initial_state))"

definition sample_gallery :: gallery_state where
  "sample_gallery = \<lparr>editingId = None, editName = []\<rparr>"

text \<open>The history record a saved run becomes.\<close>

definition historyItemOf :: "env \<times> ProcessedFile list \<times> string \<Rightarrow> HistoryItem" where
  "historyItemOf run =
     (case run of (e, rs, p) \<Rightarrow>
        \<lparr>hi_id = randomUUID e, hi_timestamp = now e, hi_prompt = p, hi_results = rs\<rparr>)"

section \<open>Properties of the structural validator\<close>

text \<open>
  Claim C5. On the four sample inputs the validator returns: for \<open>a{b{c}\<close> the single
  finding that one closing brace is missing; for \<open>a}b{c}}\<close> two findings of an extra
  closing brace, one for each time the counter went negative; for the empty text only
  the finding that the output is empty; for \<open>a{b}\<close> no finding.
\<close>

theorem validateCss_samples:
  "validateCss ''a{b{c}'' = [''Missing 1 closing brace(s) '}'.'']
   \<and> validateCss ''a}b{c}}'' = [''Found extra closing brace '}'.'', ''Found extra closing brace '}'.'']
   \<and> validateCss '''' = [''Generated CSS is empty.'']
   \<and> validateCss ''a{b}'' = []"
  by (simp add: validateCss_def scan_step_def trim_def trimEnd_def trimStart_def
      isWhiteSpace_def digit_char_def Let_def)

section \<open>The rewriting loop\<close>



text \<open>The loop writes nothing but the status message.\<close>

lemma rewriteLoop_frame:
  "rewriteLoop tr fs css p m i acc s evs = (res, s', evs') \<Longrightarrow>
   \<exists>msg. s' = s\<lparr>statusMessage := msg\<rparr>"
proof (induction tr fs css p m i acc s evs rule: rewriteLoop.induct)
  case (1 tr fs css p m i acc s evs)
  show ?case
  proof (cases "i < length fs")
    case False
    with "1.prems" have "s' = s" by (simp add: rewriteLoop.simps)
    then have "s' = s\<lparr>statusMessage := statusMessage s\<rparr>" by simp
    then show ?thesis by blast
  next
    case True
    let ?file = "fs ! i"
    let ?s1 = "s\<lparr>statusMessage := ''Rewriting '' @ uf_name ?file @ '' ('' @ show_nat (i + 1)
                                       @ ''/'' @ show_nat (length fs) @ '')...''\<rparr>"
    let ?r = "rewriteHtmlFile tr (i + 1) ?file css p m"
    show ?thesis
    proof (cases ?r)
      case (Inl err)
      with True "1.prems" have "s' = ?s1"
        by (simp add: rewriteLoop.simps[of tr fs css p m i] Let_def)
      then show ?thesis by blast
    next
      case (Inr newHtml)
      with True "1.prems" have
        "rewriteLoop tr fs css p m (i + 1)
           (acc @ [\<lparr>pf_fileName = uf_name ?file, pf_content = newHtml, pf_type = Html\<rparr>])
           ?s1 (evs @ [RewriteHtml ?file ?r]) = (res, s', evs')"
        by (simp add: rewriteLoop.simps[of tr fs css p m i] Let_def)
      from "1.IH"[OF True refl refl refl Inr this]
      obtain msg where "s' = ?s1\<lparr>statusMessage := msg\<rparr>" by blast
      then have "s' = s\<lparr>statusMessage := msg\<rparr>" by simp
      then show ?thesis by blast
    qed
  qed
qed


text \<open>When every remaining call is answered, the loop returns one document per file, in
  the order of the files.\<close>

lemma rewriteLoop_success:
  "\<forall>k. i \<le> k \<and> k < length fs \<longrightarrow> tr (k + 1) m (HtmlRequest (fs ! k) css p) = Some (raw k) \<Longrightarrow>
   fst (rewriteLoop tr fs css p m i acc s evs) =
     Inr (acc @ map (\<lambda>k. \<lparr>pf_fileName = uf_name (fs ! k), pf_content = cleanCodeResponse (raw k),
                           pf_type = Html\<rparr>) [i..<length fs])"
proof (induction tr fs css p m i acc s evs rule: rewriteLoop.induct)
  case (1 tr fs css p m i acc s evs)
  show ?case
  proof (cases "i < length fs")
    case False
    then show ?thesis by (simp add: rewriteLoop.simps)
  next
    case True
    let ?file = "fs ! i"
    let ?s1 = "s\<lparr>statusMessage := ''Rewriting '' @ uf_name ?file @ '' ('' @ show_nat (i + 1)
                                       @ ''/'' @ show_nat (length fs) @ '')...''\<rparr>"
    let ?r = "rewriteHtmlFile tr (i + 1) ?file css p m"
    have r: "?r = Inr (cleanCodeResponse (raw i))"
      using "1.prems" True by (simp add: rewriteHtmlFile_def)
    have later: "\<forall>k. i + 1 \<le> k \<and> k < length fs \<longrightarrow> tr (k + 1) m (HtmlRequest (fs ! k) css p) = Some (raw k)"
      using "1.prems" by simp
    have "fst (rewriteLoop tr fs css p m i acc s evs) =
          fst (rewriteLoop tr fs css p m (i + 1)
           (acc @ [\<lparr>pf_fileName = uf_name ?file, pf_content = cleanCodeResponse (raw i), pf_type = Html\<rparr>])
           ?s1 (evs @ [RewriteHtml ?file ?r]))"
      using True r by (simp add: rewriteLoop.simps[of tr fs css p m i] Let_def)
    also have "\<dots> = Inr ((acc @ [\<lparr>pf_fileName = uf_name ?file, pf_content = cleanCodeResponse (raw i), pf_type = Html\<rparr>])
        @ map (\<lambda>k. \<lparr>pf_fileName = uf_name (fs ! k), pf_content = cleanCodeResponse (raw k),
                           pf_type = Html\<rparr>) [i + 1..<length fs])"
      using "1.IH"[OF True refl refl refl r later] by simp
    also have "\<dots> = Inr (acc @ map (\<lambda>k. \<lparr>pf_fileName = uf_name (fs ! k), pf_content = cleanCodeResponse (raw k),
                           pf_type = Html\<rparr>) [i..<length fs])"
      using True by (simp add: upt_conv_Cons)
    finally show ?thesis .
  qed
qed

section \<open>Properties of the pipeline\<close>

text \<open>
  The outcome of a run in which the service answers every request: the final state up
  to the last status message.
\<close>

lemma processFiles_all_answered:
  assumes nonempty: "files s \<noteq> []" and nonblank: "trim (prompt s) \<noteq> []"
    and css: "tr 0 (selectedModel s) (CssRequest (files s) (prompt s)) = Some rawCss"
    and html: "\<forall>k < length (files s). tr (k + 1) (selectedModel s)
                 (HtmlRequest (files s ! k) (cleanCodeResponse rawCss) (prompt s)) = Some (rawHtml k)"
  defines "finalResults \<equiv>
      \<lparr>pf_fileName = ''style.css'', pf_content = cleanCodeResponse rawCss, pf_type = Css\<rparr>
      # map (\<lambda>k. \<lparr>pf_fileName = uf_name (files s ! k), pf_content = cleanCodeResponse (rawHtml k),
                    pf_type = Html\<rparr>) [0..<length (files s)]"
  shows "\<exists>msg. fst (processFiles tr e s) =
     (let s5 = s\<lparr>error := None, status := COMPLETED, statusMessage := msg, results := finalResults\<rparr>
      in if validateCss (cleanCodeResponse rawCss) \<noteq> []
         then s5\<lparr>error := Some (''Processing complete, but CSS validation found issues: ''
                                 @ join '', '' (validateCss (cleanCodeResponse rawCss)))\<rparr>
         else (case saveToHistory e finalResults (prompt s) s5 of
                 Returned s6 \<Rightarrow> s6
               | Threw err s6 \<Rightarrow> catchError err s6))"
proof -
  let ?css = "cleanCodeResponse rawCss"
  let ?s1 = "s\<lparr>error := None, status := GENERATING_CSS,
               statusMessage := ''Generating theme with '' @ m_name (selectedModel s) @ ''...''\<rparr>"
  let ?s2 = "if length (validateCss ?css) > 0
             then ?s1\<lparr>statusMessage := ''CSS Validation warning: '' @ validateCss ?css ! 0
                                       @ '' Attempting to proceed...''\<rparr>
             else ?s1"
  let ?s3 = "?s2\<lparr>status := REWRITING_HTML\<rparr>"
  let ?evs = "[SetStatus ANALYZING, SetStatus GENERATING_CSS] @ [GenerateCss (Inr ?css), SetStatus REWRITING_HTML]"
  let ?loop = "rewriteLoop tr (files s) ?css (prompt s) (selectedModel s) 0 [] ?s3 ?evs"
  have gen: "generateGlobalCss tr (files s) (prompt s) (selectedModel s) = Inr ?css"
    using css by (simp add: generateGlobalCss_def)
  obtain res s4 evs4 where loop: "?loop = (res, s4, evs4)"
    by (cases ?loop) auto
  have "\<forall>k. 0 \<le> k \<and> k < length (files s) \<longrightarrow> tr (k + 1) (selectedModel s)
                 (HtmlRequest (files s ! k) ?css (prompt s)) = Some (rawHtml k)"
    using html by simp
  from rewriteLoop_success[where raw = rawHtml and acc = "[]" and s = ?s3 and evs = ?evs
      and tr = tr and fs = "files s" and m = "selectedModel s" and css = ?css and p = "prompt s"
      and i = 0, OF this] loop
  have res: "res = Inr (tl finalResults)"
    by (simp add: finalResults_def)
  from rewriteLoop_frame[OF loop] obtain msg where s4: "s4 = ?s3\<lparr>statusMessage := msg\<rparr>"
    by blast
  have s4': "s4 = s\<lparr>error := None, status := REWRITING_HTML, statusMessage := msg\<rparr>"
    unfolding s4 by simp
  have fr: "\<lparr>pf_fileName = ''style.css'', pf_content = ?css, pf_type = Css\<rparr> # tl finalResults = finalResults"
    by (simp add: finalResults_def)
  have ne: "(length (files s) = 0) = False" using nonempty by simp
  have nb: "(trim (prompt s) = []) = False" using nonblank by simp
  let ?s5 = "s4\<lparr>results := finalResults, status := COMPLETED\<rparr>"
  have run: "processFiles tr e s =
     (if length (validateCss ?css) > 0
      then (?s5\<lparr>error := Some (''Processing complete, but CSS validation found issues: ''
                                 @ join '', '' (validateCss ?css))\<rparr>,
            evs4 @ [SetStatus COMPLETED])
      else (case saveToHistory e finalResults (prompt s) ?s5 of
              Returned s6 \<Rightarrow> (s6, evs4 @ [SetStatus COMPLETED])
            | Threw err s6 \<Rightarrow> (catchError err s6, evs4 @ [SetStatus COMPLETED, SetStatus ERROR])))"
    unfolding processFiles_def Let_def
    by (simp only: ne nb if_False gen sum.case loop res prod.case fr)
  have s5: "?s5 = s\<lparr>error := None, status := COMPLETED, statusMessage := msg, results := finalResults\<rparr>"
    unfolding s4' by simp
  have "fst (processFiles tr e s) =
     (let s5 = s\<lparr>error := None, status := COMPLETED, statusMessage := msg, results := finalResults\<rparr>
      in if validateCss ?css \<noteq> []
         then s5\<lparr>error := Some (''Processing complete, but CSS validation found issues: ''
                                 @ join '', '' (validateCss ?css))\<rparr>
         else (case saveToHistory e finalResults (prompt s) s5 of
                 Returned s6 \<Rightarrow> s6
               | Threw err s6 \<Rightarrow> catchError err s6))"
    unfolding run s5 Let_def
    by (cases "saveToHistory e finalResults (prompt s)
                 (s\<lparr>error := None, status := COMPLETED, statusMessage := msg, results := finalResults\<rparr>)")
       simp_all
  then show ?thesis by blast
qed


text \<open>
  Claim C1. A run with at least one file and a non-blank prompt, in which the stylesheet
  request and every rewrite request are answered and \<open>validateCss\<close> reports at least one
  finding on the stylesheet, ends with status \<open>COMPLETED\<close>; the findings, joined by commas,
  are shown through \<open>error\<close>; the run history and its stored copy are what they were
  before the run.
\<close>

theorem completed_with_warnings_not_saved:
  assumes "files s \<noteq> []" and "trim (prompt s) \<noteq> []"
    and "tr 0 (selectedModel s) (CssRequest (files s) (prompt s)) = Some rawCss"
    and "\<forall>k < length (files s). tr (k + 1) (selectedModel s)
            (HtmlRequest (files s ! k) (cleanCodeResponse rawCss) (prompt s)) = Some (rawHtml k)"
    and "validateCss (cleanCodeResponse rawCss) \<noteq> []"
  shows "status (fst (processFiles tr e s)) = COMPLETED
       \<and> error (fst (processFiles tr e s)) =
           Some (''Processing complete, but CSS validation found issues: ''
                 @ join '', '' (validateCss (cleanCodeResponse rawCss)))
       \<and> history (fst (processFiles tr e s)) = history s
       \<and> ls_history (fst (processFiles tr e s)) = ls_history s"
proof -
  from processFiles_all_answered[where tr = tr and s = s and rawCss = rawCss and rawHtml = rawHtml
      and e = e, OF assms(1-4)] assms(5)
  obtain msg where "fst (processFiles tr e s) =
     s\<lparr>error := None, status := COMPLETED, statusMessage := msg,
       results := \<lparr>pf_fileName = ''style.css'', pf_content = cleanCodeResponse rawCss, pf_type = Css\<rparr>
         # map (\<lambda>k. \<lparr>pf_fileName = uf_name (files s ! k), pf_content = cleanCodeResponse (rawHtml k),
                    pf_type = Html\<rparr>) [0..<length (files s)],
       error := Some (''Processing complete, but CSS validation found issues: ''
                                 @ join '', '' (validateCss (cleanCodeResponse rawCss)))\<rparr>"
    by (auto simp: Let_def)
  then show ?thesis by simp
qed

text \<open>
  The sample run with the unbalanced stylesheet: two files, one finding.
\<close>

theorem completed_with_warnings_not_saved_witness:
  "files sample_state \<noteq> [] \<and> trim (prompt sample_state) \<noteq> []
   \<and> validateCss (cleanCodeResponse ''a{b{c}'') = [''Missing 1 closing brace(s) '}'.'']
   \<and> status (fst (processFiles transport_unbalanced sample_env sample_state)) = COMPLETED
   \<and> error (fst (processFiles transport_unbalanced sample_env sample_state)) =
        Some ''Processing complete, but CSS validation found issues: Missing 1 closing brace(s) '}'.''
   \<and> history (fst (processFiles transport_unbalanced sample_env sample_state)) = history sample_state
   \<and> ls_history (fst (processFiles transport_unbalanced sample_env sample_state)) = ls_history sample_state"
proof -
  have h1: "files sample_state \<noteq> []" by code_simp
  have h2: "trim (prompt sample_state) \<noteq> []" by code_simp
  have h3: "transport_unbalanced 0 (selectedModel sample_state)
              (CssRequest (files sample_state) (prompt sample_state)) = Some ''a{b{c}''"
    by (simp add: transport_unbalanced_def)
  have h4: "\<forall>k < length (files sample_state). transport_unbalanced (k + 1) (selectedModel sample_state)
            (HtmlRequest (files sample_state ! k) (cleanCodeResponse ''a{b{c}'') (prompt sample_state))
            = Some (''<main>'' @ uf_name (files sample_state ! k) @ ''</main>'')"
    by (simp add: transport_unbalanced_def)
  have v: "validateCss (cleanCodeResponse ''a{b{c}'') = [''Missing 1 closing brace(s) '}'.'']"
    by code_simp
  then have h5: "validateCss (cleanCodeResponse ''a{b{c}'') \<noteq> []" by simp
  from completed_with_warnings_not_saved[where tr = transport_unbalanced and s = sample_state and rawCss = "''a{b{c}''"
      and rawHtml = "\<lambda>k. ''<main>'' @ uf_name (files sample_state ! k) @ ''</main>''"
      and e = sample_env, OF h1 h2 h3 h4 h5] h1 h2 v show ?thesis by simp
qed



text \<open>
  Claim C3, as the code has it. When there is no file, or the prompt is blank after
  trimming, \<open>processFiles\<close> returns at once: no status is set, no gateway call is made and
  the status stays what it was. With no file the state is left as it is, \<open>error\<close> included:
  no message is set. With a file and a blank prompt the only change is the validation
  message in \<open>error\<close>.
\<close>

theorem start_rejected_without_run:
  assumes "files s = [] \<or> trim (prompt s) = []"
  shows "fst (processFiles tr e s) =
           (if files s = [] then s
            else s\<lparr>error := Some ''Please describe how you want to restyle the website.''\<rparr>)
       \<and> status (fst (processFiles tr e s)) = status s
       \<and> snd (processFiles tr e s) = []"
  using assms by (auto simp: processFiles_def)

text \<open>
  In the initial state there is no file: the call changes nothing. With one file and a
  prompt of three spaces the message is set and nothing else happens.
\<close>

theorem start_rejected_without_run_witness:
  "fst (processFiles transport_clean sample_env initial_state) = initial_state
   \<and> snd (processFiles transport_clean sample_env initial_state) = []
   \<and> status (fst (processFiles transport_clean sample_env initial_state)) = IDLE
   \<and> files blank_prompt_state \<noteq> [] \<and> trim (prompt blank_prompt_state) = []
   \<and> fst (processFiles transport_clean sample_env blank_prompt_state) =
       blank_prompt_state\<lparr>error := Some ''Please describe how you want to restyle the website.''\<rparr>
   \<and> snd (processFiles transport_clean sample_env blank_prompt_state) = []"
proof -
  have h: "files initial_state = [] \<or> trim (prompt initial_state) = []" by code_simp
  have f: "files initial_state = []" "status initial_state = IDLE" by code_simp+
  have b: "files blank_prompt_state \<noteq> []" "trim (prompt blank_prompt_state) = []" by code_simp+
  then have hb: "files blank_prompt_state = [] \<or> trim (prompt blank_prompt_state) = []" by simp
  from start_rejected_without_run[OF h, of transport_clean sample_env]
    start_rejected_without_run[OF hb, of transport_clean sample_env] b
  show ?thesis by (simp add: f)
qed

text \<open>
  The claim as stated asks for a validation message when there is no file. In the
  initial state there is none after the call.
\<close>

theorem start_without_files_is_silent:
  "files initial_state = []
   \<and> error (fst (processFiles transport_clean sample_env initial_state)) = None"
  by code_simp




section \<open>Properties of the run history\<close>

lemma saveToHistory_history:
  "history (state_of (saveToHistory e rs p s)) = take 20 (historyItemOf (e, rs, p) # history s)"
  by (cases "setItem_throws e") (simp_all add: saveToHistory_def historyItemOf_def Let_def)

lemma saveToHistory_ls_history:
  "setItem_throws e = None \<Longrightarrow>
   ls_history (state_of (saveToHistory e rs p s)) = Some (history (state_of (saveToHistory e rs p s)))"
  by (simp add: saveToHistory_def Let_def)

lemma take_append_take:
  "take n (xs @ take n ys) = take n (xs @ ys)"
  by (simp add: min_def)

lemma saveAll_history:
  "runs \<noteq> [] \<Longrightarrow>
   history (saveAll runs s) = take 20 (rev (map historyItemOf runs) @ history s)"
proof (induction runs arbitrary: s)
  case Nil
  then show ?case by simp
next
  case (Cons run runs)
  obtain e rs p where run: "run = (e, rs, p)" by (cases run) auto
  show ?case
  proof (cases "runs = []")
    case True
    then show ?thesis by (simp add: run saveToHistory_history)
  next
    case False
    have "history (saveAll (run # runs) s) = history (saveAll runs (state_of (saveToHistory e rs p s)))"
      by (simp add: run)
    also have "\<dots> = take 20 (rev (map historyItemOf runs) @ take 20 (historyItemOf run # history s))"
      by (simp add: Cons.IH[OF False] saveToHistory_history run)
    also have "\<dots> = take 20 (rev (map historyItemOf (run # runs)) @ history s)"
      by (subst take_append_take) simp
    finally show ?thesis .
  qed
qed

lemma saveAll_ls_history:
  "runs \<noteq> [] \<Longrightarrow> setItem_throws (fst (last runs)) = None \<Longrightarrow>
   ls_history (saveAll runs s) = Some (history (saveAll runs s))"
proof (induction runs arbitrary: s)
  case Nil
  then show ?case by simp
next
  case (Cons run runs)
  obtain e rs p where run: "run = (e, rs, p)" by (cases run) auto
  show ?case
  proof (cases "runs = []")
    case True
    with Cons.prems show ?thesis by (simp add: run saveToHistory_ls_history)
  next
    case False
    with Cons.prems have "setItem_throws (fst (last runs)) = None" by simp
    from Cons.IH[OF False this] show ?thesis by (simp add: run)
  qed
qed

text \<open>
  Claim C6. From any state, saving 25 runs one after the other leaves exactly 20 records
  in the run history: those of the last 20 runs saved, the newest first. This holds
  whether the writes to \<open>localStorage\<close> return or throw; when the write of the last run
  returns, the stored copy is the same list.
\<close>

theorem saveToHistory_25_keeps_newest_20:
  assumes "length runs = 25"
  shows "history (saveAll runs s) = rev (map historyItemOf (drop 5 runs))
       \<and> length (history (saveAll runs s)) = 20
       \<and> (setItem_throws (fst (last runs)) = None \<longrightarrow>
            ls_history (saveAll runs s) = Some (history (saveAll runs s)))"
proof -
  have ne: "runs \<noteq> []" using assms by auto
  have "history (saveAll runs s) = take 20 (rev (map historyItemOf runs))"
    using assms by (simp add: saveAll_history[OF ne])
  also have "\<dots> = rev (map historyItemOf (drop 5 runs))"
    using assms by (simp add: take_rev drop_map)
  finally have h: "history (saveAll runs s) = rev (map historyItemOf (drop 5 runs))" .
  from saveAll_ls_history[OF ne] h assms show ?thesis by simp
qed

text \<open>
  The 25 sample runs saved on top of a full history: runs 24 down to 5 remain, though
  the write of run 10 threw; the last write returned and the stored copy is the same.
\<close>

theorem saveToHistory_25_keeps_newest_20_witness:
  "length sample_runs = 25
   \<and> setItem_throws (fst (last sample_runs)) = None
   \<and> map hi_id (history (saveAll sample_runs full_history_state)) =
       [''24'', ''23'', ''22'', ''21'', ''20'', ''19'', ''18'', ''17'', ''16'', ''15'',
        ''14'', ''13'', ''12'', ''11'', ''10'', ''9'', ''8'', ''7'', ''6'', ''5'']
   \<and> length (history (saveAll sample_runs full_history_state)) = 20
   \<and> ls_history (saveAll sample_runs full_history_state) =
       Some (history (saveAll sample_runs full_history_state))"
proof -
  have h: "length sample_runs = 25" by code_simp
  have l: "setItem_throws (fst (last sample_runs)) = None" by code_simp
  have m: "map hi_id (rev (map historyItemOf (drop 5 sample_runs))) =
       [''24'', ''23'', ''22'', ''21'', ''20'', ''19'', ''18'', ''17'', ''16'', ''15'',
        ''14'', ''13'', ''12'', ''11'', ''10'', ''9'', ''8'', ''7'', ''6'', ''5'']"
    by code_simp
  from saveToHistory_25_keeps_newest_20[OF h, of full_history_state] h l m show ?thesis by simp
qed

section \<open>Properties of undo and redo\<close>

text \<open>
  A commit made with the current index, from a cursor that is a valid index before the
  last one: the snapshots up to the cursor are kept, those after it dropped, the new
  snapshot appended and the cursor moved to it, the new last index; a redo then changes
  nothing.
\<close>

lemma commit_with_current_index:
  assumes "historyIndex s < length (inputHistory s) - 1"
  shows "inputHistory (addToHistoryStack (historyIndex s) newFiles newPrompt s) =
           take (historyIndex s + 1) (inputHistory s)
           @ [\<lparr>snap_files = newFiles, snap_prompt = newPrompt\<rparr>]
       \<and> historyIndex (addToHistoryStack (historyIndex s) newFiles newPrompt s) = historyIndex s + 1
       \<and> historyIndex (addToHistoryStack (historyIndex s) newFiles newPrompt s) =
           length (inputHistory (addToHistoryStack (historyIndex s) newFiles newPrompt s)) - 1
       \<and> handleRedo (addToHistoryStack (historyIndex s) newFiles newPrompt s) =
           addToHistoryStack (historyIndex s) newFiles newPrompt s"
proof -
  have "historyIndex s + 1 < length (inputHistory s)"
    using assms by linarith
  then show ?thesis
    by (simp add: addToHistoryStack_def handleRedo_def Let_def min_def)
qed

text \<open>
  Claim C7. The claim fails for the debounced commit of a prompt change. One file is
  added, an \<open>x\<close> is typed, and the edit is undone before the timer fires: the cursor is at
  0 of two snapshots. The timer then commits with the index 1 of the render that armed
  it. The snapshot after the cursor is not discarded, the new snapshot becomes the third,
  and the cursor moves to 1, which is not the new last index 2: a redo target remains,
  and redo changes the state.
\<close>

theorem debounced_commit_after_undo_keeps_redo_target:
  "historyIndex pending_commit_after_undo = 0
   \<and> inputHistory pending_commit_after_undo =
       [\<lparr>snap_files = [], snap_prompt = []\<rparr>, \<lparr>snap_files = [sample_file1], snap_prompt = []\<rparr>]
   \<and> debounceTimer pending_commit_after_undo = Some (1, [sample_file1], ''x'')
   \<and> inputHistory (debounceTimeout pending_commit_after_undo) =
       [\<lparr>snap_files = [], snap_prompt = []\<rparr>, \<lparr>snap_files = [sample_file1], snap_prompt = []\<rparr>,
        \<lparr>snap_files = [sample_file1], snap_prompt = ''x''\<rparr>]
   \<and> historyIndex (debounceTimeout pending_commit_after_undo) = 1
   \<and> historyIndex (handleRedo (debounceTimeout pending_commit_after_undo)) = 2"
  by code_simp

text \<open>
  Undo and then redo, from a cursor that is a valid index above 0: undo returns, and the
  redo after it leaves the snapshot sequence and the cursor as they were before the undo
  and sets the files and the prompt to the snapshot at that cursor. The rest of the state
  is unchanged but for the replay flag, which both handlers set.
\<close>

lemma undo_then_redo_at_valid_cursor:
  assumes valid: "historyIndex s < length (inputHistory s)"
    and pos: "0 < historyIndex s"
  shows "\<exists>s1. handleUndo s = Returned s1
       \<and> inputHistory (handleRedo s1) = inputHistory s
       \<and> historyIndex (handleRedo s1) = historyIndex s
       \<and> files (handleRedo s1) = snap_files (inputHistory s ! historyIndex s)
       \<and> prompt (handleRedo s1) = snap_prompt (inputHistory s ! historyIndex s)
       \<and> handleRedo s1 = s\<lparr>isUndoing := True,
                             files := snap_files (inputHistory s ! historyIndex s),
                             prompt := snap_prompt (inputHistory s ! historyIndex s)\<rparr>"
proof -
  let ?s1 = "s\<lparr>isUndoing := True,
               files := snap_files (inputHistory s ! (historyIndex s - 1)),
               prompt := snap_prompt (inputHistory s ! (historyIndex s - 1)),
               historyIndex := historyIndex s - 1\<rparr>"
  have undo: "handleUndo s = Returned ?s1"
    using valid pos by (simp add: handleUndo_def Let_def)
  have redo: "handleRedo ?s1 = s\<lparr>isUndoing := True,
                             files := snap_files (inputHistory s ! historyIndex s),
                             prompt := snap_prompt (inputHistory s ! historyIndex s)\<rparr>"
    using valid pos by (simp add: handleRedo_def Let_def)
  show ?thesis using undo redo by simp
qed

text \<open>
  Claim C8. The claim fails in a state that two commits reach. An \<open>x\<close> is typed, then one
  file is added before the timer fires; the timer then commits with the index 0 of the
  render that armed it, while the increment of the cursor starts from 1. The snapshot of
  the added file is dropped and the cursor is 2 on two snapshots, past the last index.
  Undo is enabled and returns; the redo after it does nothing, so the cursor ends at 1
  instead of 2, and the file that was there before the undo is gone.
\<close>

theorem undo_redo_after_debounced_commit_not_restored:
  "inputHistory commit_after_file_added =
       [\<lparr>snap_files = [], snap_prompt = []\<rparr>, \<lparr>snap_files = [], snap_prompt = ''x''\<rparr>]
   \<and> historyIndex commit_after_file_added = 2
   \<and> files commit_after_file_added = [sample_file1]
   \<and> handleUndo commit_after_file_added =
       Returned (commit_after_file_added\<lparr>isUndoing := True, files := [], prompt := ''x'',
                                          historyIndex := 1\<rparr>)
   \<and> handleRedo (state_of (handleUndo commit_after_file_added)) =
       state_of (handleUndo commit_after_file_added)
   \<and> historyIndex (handleRedo (state_of (handleUndo commit_after_file_added))) = 1
   \<and> files (handleRedo (state_of (handleUndo commit_after_file_added))) = []"
  by code_simp

text \<open>
  Claim C10, as the code has it. When no replay is in progress (\<open>isUndoing\<close> is not
  set) and the id is the id of no current file, \<open>handleRemoveFile\<close> leaves the files as they
  are and commits a snapshot of the current files and prompt: the snapshots up to the
  cursor are followed by the new one, and the cursor advances by one.
\<close>

theorem remove_absent_file_commits:
  assumes "fid \<notin> uf_id ` set (files s)" and "\<not> isUndoing s"
  shows "files (handleRemoveFile fid s) = files s
       \<and> inputHistory (handleRemoveFile fid s) =
           take (historyIndex s + 1) (inputHistory s)
           @ [\<lparr>snap_files = files s, snap_prompt = prompt s\<rparr>]
       \<and> historyIndex (handleRemoveFile fid s) = historyIndex s + 1"
proof -
  have "filter (\<lambda>f. uf_id f \<noteq> fid) (files s) = files s"
    using assms(1) by (auto simp: filter_id_conv)
  then show ?thesis
    using assms(2) by (simp add: handleRemoveFile_def addToHistoryStack_def Let_def)
qed

text \<open>
  The sample state, and an id that no file has.
\<close>

theorem remove_absent_file_commits_witness:
  "''no-such-id'' \<notin> uf_id ` set (files sample_state) \<and> \<not> isUndoing sample_state
   \<and> files (handleRemoveFile ''no-such-id'' sample_state) = [sample_file1, sample_file2]
   \<and> inputHistory (handleRemoveFile ''no-such-id'' sample_state) =
       [\<lparr>snap_files = [], snap_prompt = []\<rparr>,
        \<lparr>snap_files = [sample_file1, sample_file2], snap_prompt = ''dark mode''\<rparr>]
   \<and> historyIndex (handleRemoveFile ''no-such-id'' sample_state) = 1"
proof -
  have h1: "''no-such-id'' \<notin> uf_id ` set (files sample_state)" by code_simp
  have h2: "\<not> isUndoing sample_state" by code_simp
  have f: "files sample_state = [sample_file1, sample_file2]" "prompt sample_state = ''dark mode''"
    "historyIndex sample_state = 0" "inputHistory sample_state = [\<lparr>snap_files = [], snap_prompt = []\<rparr>]"
    by code_simp+
  from remove_absent_file_commits[OF h1 h2] h1 h2 show ?thesis by (simp add: f)
qed

text \<open>
  The claim as stated holds for every state. Right after an undo the replay flag is
  set, and removing an absent id changes nothing at all.
\<close>

theorem remove_absent_file_during_replay:
  "''no-such-id'' \<notin> uf_id ` set (files undone_state)
   \<and> isUndoing undone_state
   \<and> handleRemoveFile ''no-such-id'' undone_state = undone_state"
  by code_simp

section \<open>Properties of the template catalog\<close>

text \<open>
  Claim C9, as the code has it. For a template whose \<open>isCustom\<close> is not true the gallery
  renders neither the edit nor the delete button, so a click on its card can neither
  delete it nor start renaming it: the catalog and the gallery state stay as they are.
  The handlers \<open>handleDeleteTemplate\<close> and \<open>handleRenameTemplate\<close> themselves do not look
  at \<open>isCustom\<close>.
\<close>

theorem gallery_protects_builtin_templates:
  assumes "t_isCustom t \<noteq> Some True"
  shows "clickDelete w g t s = Returned s \<and> clickEdit t g = g"
  using assms by (simp add: clickDelete_def clickEdit_def editControlsRendered_def)

text \<open>
  The first built-in template.
\<close>

theorem gallery_protects_builtin_templates_witness:
  "t_isCustom (templates initial_state ! 0) \<noteq> Some True
   \<and> clickDelete None sample_gallery (templates initial_state ! 0) initial_state = Returned initial_state
   \<and> clickEdit (templates initial_state ! 0) sample_gallery = sample_gallery"
proof -
  have h: "t_isCustom (templates initial_state ! 0) \<noteq> Some True" by code_simp
  from gallery_protects_builtin_templates[OF h] h show ?thesis by simp
qed

text \<open>
  The claim as stated leaves the catalog unchanged when rename or delete is invoked on
  a built-in template. The handlers, called with the id of the built-in template
  \<open>t1\<close>, remove it and rename it.
\<close>

theorem handlers_change_builtin_template:
  "t_id (templates initial_state ! 0) = ''t1''
   \<and> t_isCustom (templates initial_state ! 0) = None
   \<and> map t_id (templates (state_of (handleDeleteTemplate None ''t1'' initial_state)))
       = [''t2'', ''t3'', ''t4'']
   \<and> map t_name (templates (state_of (handleRenameTemplate None ''t1'' ''Mine'' initial_state)))
       = [''Mine'', ''Corporate Clean'', ''Neon Cyberpunk'', ''Playful & Brutalist'']"
  by code_simp

end
